theory Spec2Isabelle
  imports Complex_Main
begin

section \<open>A one-hidden-layer network trained by full-batch gradient descent\<close>

text \<open>
  The development follows the class \<open>NeuralNetwork\<close> of the notebook
  \<open>simple_neural_network_iris_example.ipynb\<close>. Two conventions hold throughout.

  \<^item> NumPy's float64 entries are idealised as real numbers with exact arithmetic: rounding,
    overflow and the special values inf and nan are not represented. An operation whose
    float result would be inf or nan on finite arguments (a division by zero, the logarithm
    of a non-positive number) yields the error value \<open>NotFinite\<close>, although Python only
    warns and carries on.
  \<^item> A two-dimensional array is the list of its rows. An array with no rows is \<open>[]\<close>, so
    the column count of a 0-row array is not recorded; ragged lists stand for no array.
\<close>

subsection \<open>Arrays and the NumPy operations the class calls\<close>

type_synonym ndarray = "real list list"

datatype error = ValueError | AttributeError | NotFinite

definition and_then :: "error + 'a \<Rightarrow> ('a \<Rightarrow> error + 'b) \<Rightarrow> error + 'b" where
  "and_then r f = (case r of Inl e \<Rightarrow> Inl e | Inr v \<Rightarrow> f v)"

definition attr :: "'a option \<Rightarrow> error + 'a" where
  \<comment> \<open>reading an instance attribute that no assignment has created yet raises\<close>
  "attr v = (case v of None \<Rightarrow> Inl AttributeError | Some a \<Rightarrow> Inr a)"

definition nrows :: "ndarray \<Rightarrow> nat" where
  "nrows A = length A"

definition ncols :: "ndarray \<Rightarrow> nat" where
  "ncols A = (case A of [] \<Rightarrow> 0 | r # _ \<Rightarrow> length r)"

definition mat :: "nat \<Rightarrow> nat \<Rightarrow> ndarray \<Rightarrow> bool" where
  \<comment> \<open>\<open>A.shape == (m, n)\<close>\<close>
  "mat m n A = (length A = m \<and> list_all (\<lambda>r. length r = n) A)"

definition tab :: "nat \<Rightarrow> nat \<Rightarrow> (nat \<Rightarrow> nat \<Rightarrow> real) \<Rightarrow> ndarray" where
  \<comment> \<open>the \<open>m \<times> n\<close> array whose entry \<open>(i, j)\<close> is \<open>f i j\<close>\<close>
  "tab m n f = map (\<lambda>i. map (f i) [0..<n]) [0..<m]"

definition np_T :: "ndarray \<Rightarrow> ndarray" where
  \<comment> \<open>\<open>A.T\<close>\<close>
  "np_T A = map (\<lambda>j. map (\<lambda>r. r ! j) A) [0..<ncols A]"

definition np_dot :: "ndarray \<Rightarrow> ndarray \<Rightarrow> error + ndarray" where
  \<comment> \<open>\<open>np.dot(A, B)\<close>: each entry is a row of \<open>A\<close> times a column of \<open>B\<close>; the inner
      dimensions must agree\<close>
  "np_dot A B =
     (if list_all (\<lambda>r. length r = length B) A
      then Inr (map (\<lambda>r. map (\<lambda>c. sum_list (map2 (*) r c)) (np_T B)) A)
      else Inl ValueError)"

definition bdim :: "nat \<Rightarrow> nat \<Rightarrow> nat option" where
  \<comment> \<open>the broadcasting rule for one axis: equal lengths, or one of them is 1\<close>
  "bdim a b = (if a = b then Some a else if a = 1 then Some b else if b = 1 then Some a else None)"

definition stretch :: "nat \<Rightarrow> 'a list \<Rightarrow> 'a list" where
  \<comment> \<open>an axis of length 1 is repeated to the broadcast length\<close>
  "stretch n xs = (if length xs = n then xs else replicate n (hd xs))"

definition np_elementwise :: "(real \<Rightarrow> real \<Rightarrow> real) \<Rightarrow> ndarray \<Rightarrow> ndarray \<Rightarrow> error + ndarray" where
  \<comment> \<open>a binary operator on two arrays, with broadcasting; with no rows in the result the
      columns cannot be compared\<close>
  "np_elementwise f A B =
     (case bdim (nrows A) (nrows B) of
        None \<Rightarrow> Inl ValueError
      | Some r \<Rightarrow>
          if r = 0 then Inr []
          else (case bdim (ncols A) (ncols B) of
                  None \<Rightarrow> Inl ValueError
                | Some c \<Rightarrow>
                    Inr (map2 (\<lambda>ra rb. map2 f (stretch c ra) (stretch c rb))
                           (stretch r A) (stretch r B))))"

definition np_add :: "ndarray \<Rightarrow> ndarray \<Rightarrow> error + ndarray" where
  "np_add A B = np_elementwise (+) A B"

definition np_subtract :: "ndarray \<Rightarrow> ndarray \<Rightarrow> error + ndarray" where
  "np_subtract A B = np_elementwise (-) A B"

definition np_multiply :: "ndarray \<Rightarrow> ndarray \<Rightarrow> error + ndarray" where
  "np_multiply A B = np_elementwise (*) A B"

definition np_divide :: "ndarray \<Rightarrow> ndarray \<Rightarrow> error + ndarray" where
  \<comment> \<open>a zero divisor gives inf or nan\<close>
  "np_divide A B =
     (if list_ex (\<lambda>v. v = 0) (concat B) then Inl NotFinite else np_elementwise (/) A B)"

definition np_isub :: "ndarray \<Rightarrow> ndarray \<Rightarrow> error + ndarray" where
  \<comment> \<open>\<open>A -= B\<close>: the broadcast result must have the shape of \<open>A\<close>, which receives it\<close>
  "np_isub A B =
     and_then (np_subtract A B)
       (\<lambda>R. if map length R = map length A then Inr R else Inl ValueError)"

definition np_add_scalar :: "ndarray \<Rightarrow> real \<Rightarrow> ndarray" where
  "np_add_scalar A c = map (map (\<lambda>v. v + c)) A"

definition np_mul_scalar :: "real \<Rightarrow> ndarray \<Rightarrow> ndarray" where
  "np_mul_scalar c A = map (map (\<lambda>v. c * v)) A"

definition np_div_int :: "ndarray \<Rightarrow> nat \<Rightarrow> error + ndarray" where
  \<comment> \<open>\<open>A / m\<close> for the row count \<open>m\<close>; dividing by 0 gives inf or nan entries\<close>
  "np_div_int A m = (if m = 0 then Inl NotFinite else Inr (map (map (\<lambda>v. v / real m)) A))"

definition np_exp :: "ndarray \<Rightarrow> ndarray" where
  "np_exp A = map (map exp) A"

definition np_log :: "ndarray \<Rightarrow> error + ndarray" where
  \<comment> \<open>\<open>np.log\<close> gives -inf at 0 and nan below\<close>
  "np_log A = (if list_ex (\<lambda>v. v \<le> 0) (concat A) then Inl NotFinite else Inr (map (map ln) A))"

definition np_max_axis1 :: "ndarray \<Rightarrow> error + ndarray" where
  \<comment> \<open>\<open>np.max(A, axis=1, keepdims=True)\<close>: the maximum of a row with no entry raises\<close>
  "np_max_axis1 A =
     (if list_ex (\<lambda>r. r = []) A then Inl ValueError else Inr (map (\<lambda>r. [Max (set r)]) A))"

definition np_sum_axis1 :: "ndarray \<Rightarrow> ndarray" where
  \<comment> \<open>\<open>np.sum(A, axis=1, keepdims=True)\<close>\<close>
  "np_sum_axis1 A = map (\<lambda>r. [sum_list r]) A"

definition np_sum_axis0 :: "ndarray \<Rightarrow> ndarray" where
  \<comment> \<open>\<open>np.sum(A, axis=0, keepdims=True)\<close>: one row of column sums\<close>
  "np_sum_axis0 A = [map sum_list (np_T A)]"

definition np_sum :: "ndarray \<Rightarrow> real" where
  "np_sum A = sum_list (concat A)"

fun argmax_scan :: "real list \<Rightarrow> nat \<Rightarrow> real \<Rightarrow> nat \<Rightarrow> nat" where
  \<comment> \<open>scan of the remaining entries from index \<open>i\<close>, with the best value and its index: only
      a strictly larger entry replaces the best one\<close>
  "argmax_scan [] i mv mi = mi"
| "argmax_scan (v # vs) i mv mi =
     (if mv < v then argmax_scan vs (Suc i) v i else argmax_scan vs (Suc i) mv mi)"

definition argmax :: "real list \<Rightarrow> nat" where
  "argmax r = argmax_scan (tl r) 1 (hd r) 0"

definition np_argmax_axis1 :: "ndarray \<Rightarrow> error + nat list" where
  \<comment> \<open>\<open>np.argmax(A, axis=1)\<close>: the argmax of a row with no entry raises\<close>
  "np_argmax_axis1 A =
     (if list_ex (\<lambda>r. r = []) A then Inl ValueError else Inr (map argmax A))"

subsection \<open>The class \<open>NeuralNetwork\<close>\<close>

text \<open>
  The instance attributes. The four cached intermediates do not exist before the first
  call of \<open>forward\<close>, hence the option.
\<close>

record network =
  weights_input_to_hidden :: ndarray
  weights_hidden_to_output :: ndarray
  bias_hidden :: ndarray
  bias_output :: ndarray
  learning_rate :: real
  z_hidden :: "ndarray option"
  a_hidden :: "ndarray option"
  z_output :: "ndarray option"
  a_output :: "ndarray option"

definition init :: "nat \<Rightarrow> nat \<Rightarrow> nat \<Rightarrow> real \<Rightarrow> ndarray \<Rightarrow> ndarray \<Rightarrow> network" where
  \<comment> \<open>\<open>__init__\<close>; the two draws of \<open>np.random.rand\<close> are the last two arguments\<close>
  "init input_size hidden_size output_size lr rand_ih rand_ho =
     \<lparr> weights_input_to_hidden = np_mul_scalar (1 / 100) rand_ih,
       weights_hidden_to_output = np_mul_scalar (1 / 100) rand_ho,
       bias_hidden = [replicate hidden_size 0],
       bias_output = [replicate output_size 0],
       learning_rate = lr,
       z_hidden = None, a_hidden = None, z_output = None, a_output = None \<rparr>"

definition relu :: "ndarray \<Rightarrow> ndarray" where
  \<comment> \<open>\<open>np.maximum(0, x)\<close>\<close>
  "relu x = map (map (max 0)) x"

definition relu_derivative :: "ndarray \<Rightarrow> ndarray" where
  \<comment> \<open>\<open>(x > 0).astype(float)\<close>\<close>
  "relu_derivative x = map (map (\<lambda>v. if 0 < v then 1 else 0)) x"

definition softmax :: "ndarray \<Rightarrow> error + ndarray" where
  "softmax x =
     and_then (np_max_axis1 x) (\<lambda>mx.
     and_then (np_subtract x mx) (\<lambda>shifted.
     let exp_x = np_exp shifted in
     np_divide exp_x (np_sum_axis1 exp_x)))"

definition compute_loss :: "ndarray \<Rightarrow> ndarray \<Rightarrow> error + real" where
  "compute_loss y_true y_pred =
     (let m = nrows y_true in
      and_then (np_log (np_add_scalar y_pred (1 / 10 ^ 9))) (\<lambda>lg.
      and_then (np_multiply y_true lg) (\<lambda>prod.
      if m = 0 then Inl NotFinite else Inr (- np_sum prod / real m))))"

definition forward :: "network \<Rightarrow> ndarray \<Rightarrow> (error + ndarray) \<times> network" where
  \<comment> \<open>each assignment to an attribute takes effect before the next line can raise\<close>
  "forward self x =
     (case and_then (np_dot x (weights_input_to_hidden self))
                    (\<lambda>d. np_add d (bias_hidden self)) of
        Inl e \<Rightarrow> (Inl e, self)
      | Inr zh \<Rightarrow>
          let self1 = self\<lparr>z_hidden := Some zh\<rparr>;
              ah = relu zh;
              self2 = self1\<lparr>a_hidden := Some ah\<rparr>
          in (case and_then (np_dot ah (weights_hidden_to_output self2))
                            (\<lambda>d. np_add d (bias_output self2)) of
                Inl e \<Rightarrow> (Inl e, self2)
              | Inr zo \<Rightarrow>
                  let self3 = self2\<lparr>z_output := Some zo\<rparr>
                  in (case softmax zo of
                        Inl e \<Rightarrow> (Inl e, self3)
                      | Inr ao \<Rightarrow> (Inr ao, self3\<lparr>a_output := Some ao\<rparr>))))"

text \<open>The local variables of \<open>backward\<close>, in the order of their assignment.\<close>

record backward_locals =
  dz_output :: ndarray
  dw_hidden_to_output :: ndarray
  db_output :: ndarray
  da_hidden :: ndarray
  dz_hidden :: ndarray
  dw_input_to_hidden :: ndarray
  db_hidden :: ndarray

definition backward_body :: "network \<Rightarrow> ndarray \<Rightarrow> ndarray \<Rightarrow> error + backward_locals" where
  "backward_body self x y_true =
     (let m = nrows y_true in
      and_then (and_then (attr (a_output self)) (\<lambda>ao. np_subtract ao y_true)) (\<lambda>dz_o.
      and_then (and_then (attr (a_hidden self)) (\<lambda>ah.
                and_then (np_dot (np_T ah) dz_o) (\<lambda>d. np_div_int d m))) (\<lambda>dw_ho.
      and_then (np_div_int (np_sum_axis0 dz_o) m) (\<lambda>db_o.
      and_then (np_dot dz_o (np_T (weights_hidden_to_output self))) (\<lambda>da_h.
      and_then (and_then (attr (z_hidden self)) (\<lambda>zh.
                np_multiply da_h (relu_derivative zh))) (\<lambda>dz_h.
      and_then (and_then (np_dot (np_T x) dz_h) (\<lambda>d. np_div_int d m)) (\<lambda>dw_ih.
      and_then (np_div_int (np_sum_axis0 dz_h) m) (\<lambda>db_h.
      Inr \<lparr> dz_output = dz_o, dw_hidden_to_output = dw_ho, db_output = db_o,
            da_hidden = da_h, dz_hidden = dz_h,
            dw_input_to_hidden = dw_ih, db_hidden = db_h \<rparr>))))))))"

type_synonym gradients = "ndarray \<times> ndarray \<times> ndarray \<times> ndarray"

definition backward :: "network \<Rightarrow> ndarray \<Rightarrow> ndarray \<Rightarrow> (error + gradients) \<times> network" where
  \<comment> \<open>the method assigns to no attribute: the instance is handed back as it came\<close>
  "backward self x y_true =
     (case backward_body self x y_true of
        Inl e \<Rightarrow> (Inl e, self)
      | Inr l \<Rightarrow>
          (Inr (dw_input_to_hidden l, db_hidden l, dw_hidden_to_output l, db_output l), self))"

definition update_parameters ::
  "network \<Rightarrow> ndarray \<Rightarrow> ndarray \<Rightarrow> ndarray \<Rightarrow> ndarray \<Rightarrow> (error + unit) \<times> network" where
  "update_parameters self dw_ih db_h dw_ho db_o =
     (case np_isub (weights_input_to_hidden self) (np_mul_scalar (learning_rate self) dw_ih) of
        Inl e \<Rightarrow> (Inl e, self)
      | Inr w1 \<Rightarrow>
          let self1 = self\<lparr>weights_input_to_hidden := w1\<rparr>
          in (case np_isub (bias_hidden self1) (np_mul_scalar (learning_rate self1) db_h) of
                Inl e \<Rightarrow> (Inl e, self1)
              | Inr b1 \<Rightarrow>
                  let self2 = self1\<lparr>bias_hidden := b1\<rparr>
                  in (case np_isub (weights_hidden_to_output self2)
                                   (np_mul_scalar (learning_rate self2) dw_ho) of
                        Inl e \<Rightarrow> (Inl e, self2)
                      | Inr w2 \<Rightarrow>
                          let self3 = self2\<lparr>weights_hidden_to_output := w2\<rparr>
                          in (case np_isub (bias_output self3)
                                           (np_mul_scalar (learning_rate self3) db_o) of
                                Inl e \<Rightarrow> (Inl e, self3)
                              | Inr b2 \<Rightarrow> (Inr (), self3\<lparr>bias_output := b2\<rparr>)))))"

text \<open>
  The loop of \<open>train\<close>. Its state is the instance, the list \<open>loss_history\<close> and the lines
  printed so far, each line as the pair of the epoch and the loss it shows.
\<close>

type_synonym train_state = "network \<times> real list \<times> (nat \<times> real) list"

fun train_loop :: "ndarray \<Rightarrow> ndarray \<Rightarrow> nat list \<Rightarrow> train_state \<Rightarrow> (error + unit) \<times> train_state" where
  "train_loop x y_true [] st = (Inr (), st)"
| "train_loop x y_true (epoch # rest) (self, loss_history, out) =
     (case forward self x of
        (Inl e, self1) \<Rightarrow> (Inl e, (self1, loss_history, out))
      | (Inr y_pred, self1) \<Rightarrow>
          (case compute_loss y_true y_pred of
             Inl e \<Rightarrow> (Inl e, (self1, loss_history, out))
           | Inr loss \<Rightarrow>
               let loss_history1 = loss_history @ [loss]
               in (case backward self1 x y_true of
                     (Inl e, self2) \<Rightarrow> (Inl e, (self2, loss_history1, out))
                   | (Inr (dw_ih, db_h, dw_ho, db_o), self2) \<Rightarrow>
                       (case update_parameters self2 dw_ih db_h dw_ho db_o of
                          (Inl e, self3) \<Rightarrow> (Inl e, (self3, loss_history1, out))
                        | (Inr u, self3) \<Rightarrow>
                            train_loop x y_true rest
                              (self3, loss_history1,
                               if epoch mod 100 = 0 then out @ [(epoch, loss)] else out)))))"

definition every_100th :: "'a list \<Rightarrow> 'a list" where
  \<comment> \<open>the slice \<open>[::100]\<close>\<close>
  "every_100th xs = map (\<lambda>k. xs ! (100 * k)) [0..<(length xs + 99) div 100]"

record train_result =
  trained :: network
  history :: "real list"
  printed :: "(nat \<times> real) list"
  plotted :: "(nat list \<times> real list) option"

definition train :: "network \<Rightarrow> ndarray \<Rightarrow> ndarray \<Rightarrow> int \<Rightarrow> (error + unit) \<times> train_result" where
  \<comment> \<open>\<open>range(epochs)\<close> is empty for a negative count; the plot is drawn after the loop only\<close>
  "train self x y_true epochs =
     (case train_loop x y_true [0..<nat epochs] (self, [], []) of
        (Inl e, (self', loss_history, out)) \<Rightarrow>
          (Inl e, \<lparr> trained = self', history = loss_history, printed = out, plotted = None \<rparr>)
      | (Inr u, (self', loss_history, out)) \<Rightarrow>
          (Inr (), \<lparr> trained = self', history = loss_history, printed = out,
                     plotted = Some (map (\<lambda>k. 100 * k) [0..<(nat epochs + 99) div 100],
                                     every_100th loss_history) \<rparr>))"

definition predict :: "network \<Rightarrow> ndarray \<Rightarrow> (error + nat list) \<times> network" where
  "predict self x =
     (case forward self x of
        (Inl e, self1) \<Rightarrow> (Inl e, self1)
      | (Inr y_pred, self1) \<Rightarrow> (np_argmax_axis1 y_pred, self1))"

subsection \<open>The formulas of the specification\<close>

text \<open>
  The sizes of a network are read off its second weight matrix and its first one. A network
  is well formed when the four parameters have the shapes the constructor gives them, for
  positive sizes.
\<close>

definition input_size :: "network \<Rightarrow> nat" where
  "input_size self = nrows (weights_input_to_hidden self)"

definition hidden_size :: "network \<Rightarrow> nat" where
  "hidden_size self = nrows (weights_hidden_to_output self)"

definition output_size :: "network \<Rightarrow> nat" where
  "output_size self = ncols (weights_hidden_to_output self)"

definition net_wf :: "network \<Rightarrow> bool" where
  "net_wf self =
     (0 < input_size self \<and> 0 < hidden_size self \<and> 0 < output_size self \<and>
      mat (input_size self) (hidden_size self) (weights_input_to_hidden self) \<and>
      mat (hidden_size self) (output_size self) (weights_hidden_to_output self) \<and>
      mat 1 (hidden_size self) (bias_hidden self) \<and>
      mat 1 (output_size self) (bias_output self))"

text \<open>
  The forward pass, entry by entry: \<open>X\<cdot>W_ih + b_h\<close>, its elementwise \<open>max(0, x)\<close>,
  \<open>A_hidden\<cdot>W_ho + b_o\<close>, and the softmax of each row, shifted by the row's maximum.
\<close>

definition spec_z_hidden :: "network \<Rightarrow> ndarray \<Rightarrow> nat \<Rightarrow> nat \<Rightarrow> real" where
  "spec_z_hidden self X i j =
     (\<Sum>k<input_size self. X ! i ! k * weights_input_to_hidden self ! k ! j)
     + bias_hidden self ! 0 ! j"

definition spec_a_hidden :: "network \<Rightarrow> ndarray \<Rightarrow> nat \<Rightarrow> nat \<Rightarrow> real" where
  "spec_a_hidden self X i j = max 0 (spec_z_hidden self X i j)"

definition spec_z_output :: "network \<Rightarrow> ndarray \<Rightarrow> nat \<Rightarrow> nat \<Rightarrow> real" where
  "spec_z_output self X i c =
     (\<Sum>j<hidden_size self. spec_a_hidden self X i j * weights_hidden_to_output self ! j ! c)
     + bias_output self ! 0 ! c"

definition spec_a_output :: "network \<Rightarrow> ndarray \<Rightarrow> nat \<Rightarrow> nat \<Rightarrow> real" where
  "spec_a_output self X i c =
     (let row_max = Max (spec_z_output self X i ` {..<output_size self})
      in exp (spec_z_output self X i c - row_max)
         / (\<Sum>c'<output_size self. exp (spec_z_output self X i c' - row_max)))"

definition forward_spec :: "network \<Rightarrow> ndarray \<Rightarrow> ndarray" where
  "forward_spec self X = tab (nrows X) (output_size self) (spec_a_output self X)"

text \<open>
  The chain-rule formulas of the backward pass, for the batch \<open>X\<close> of \<open>nrows X\<close> rows and
  the labels \<open>Y\<close>.
\<close>

definition spec_dz_output :: "network \<Rightarrow> ndarray \<Rightarrow> ndarray \<Rightarrow> nat \<Rightarrow> nat \<Rightarrow> real" where
  "spec_dz_output self X Y i c = spec_a_output self X i c - Y ! i ! c"

definition spec_dw_hidden_to_output :: "network \<Rightarrow> ndarray \<Rightarrow> ndarray \<Rightarrow> ndarray" where
  "spec_dw_hidden_to_output self X Y =
     tab (hidden_size self) (output_size self)
       (\<lambda>j c. (\<Sum>i<nrows X. spec_a_hidden self X i j * spec_dz_output self X Y i c)
               / real (nrows X))"

definition spec_db_output :: "network \<Rightarrow> ndarray \<Rightarrow> ndarray \<Rightarrow> ndarray" where
  "spec_db_output self X Y =
     tab 1 (output_size self)
       (\<lambda>r c. (\<Sum>i<nrows X. spec_dz_output self X Y i c) / real (nrows X))"

definition spec_da_hidden :: "network \<Rightarrow> ndarray \<Rightarrow> ndarray \<Rightarrow> nat \<Rightarrow> nat \<Rightarrow> real" where
  "spec_da_hidden self X Y i j =
     (\<Sum>c<output_size self. spec_dz_output self X Y i c * weights_hidden_to_output self ! j ! c)"

definition spec_relu_derivative :: "real \<Rightarrow> real" where
  "spec_relu_derivative v = (if 0 < v then 1 else 0)"

definition spec_dz_hidden :: "network \<Rightarrow> ndarray \<Rightarrow> ndarray \<Rightarrow> nat \<Rightarrow> nat \<Rightarrow> real" where
  "spec_dz_hidden self X Y i j =
     spec_da_hidden self X Y i j * spec_relu_derivative (spec_z_hidden self X i j)"

definition spec_dw_input_to_hidden :: "network \<Rightarrow> ndarray \<Rightarrow> ndarray \<Rightarrow> ndarray" where
  "spec_dw_input_to_hidden self X Y =
     tab (input_size self) (hidden_size self)
       (\<lambda>k j. (\<Sum>i<nrows X. X ! i ! k * spec_dz_hidden self X Y i j) / real (nrows X))"

definition spec_db_hidden :: "network \<Rightarrow> ndarray \<Rightarrow> ndarray \<Rightarrow> ndarray" where
  "spec_db_hidden self X Y =
     tab 1 (hidden_size self)
       (\<lambda>r j. (\<Sum>i<nrows X. spec_dz_hidden self X Y i j) / real (nrows X))"

text \<open>
  A one-hot matrix: every row is all zeros but for a single 1.
\<close>

definition one_hot :: "ndarray \<Rightarrow> bool" where
  "one_hot Y =
     list_all (\<lambda>r. list_ex (\<lambda>t. r = (replicate (length r) 0)[t := 1]) [0..<length r]) Y"

text \<open>
  One training epoch as the specification lists it: \<open>forward\<close>, then \<open>compute_loss\<close>, then
  \<open>backward\<close>, then \<open>update_parameters\<close>; it yields the loss and the updated network.
\<close>

definition epoch_spec :: "network \<Rightarrow> ndarray \<Rightarrow> ndarray \<Rightarrow> error + real \<times> network" where
  "epoch_spec self X Y =
     (case forward self X of
        (Inl e, s1) \<Rightarrow> Inl e
      | (Inr y_pred, s1) \<Rightarrow>
          and_then (compute_loss Y y_pred) (\<lambda>loss.
            (case backward s1 X Y of
               (Inl e, s2) \<Rightarrow> Inl e
             | (Inr (g1, g2, g3, g4), s2) \<Rightarrow>
                 (case update_parameters s2 g1 g2 g3 g4 of
                    (Inl e, s3) \<Rightarrow> Inl e
                  | (Inr u, s3) \<Rightarrow> Inr (loss, s3)))))"

subsection \<open>A small network used to run the statements\<close>

text \<open>
  One input feature, two hidden units, two classes; the hidden units copy the input and
  the output layer copies the hidden layer, so that equal inputs give equal logits.
\<close>

definition example_net :: network where
  "example_net =
     \<lparr> weights_input_to_hidden = [[1, 1]],
       weights_hidden_to_output = [[1, 0], [0, 1]],
       bias_hidden = [[0, 0]],
       bias_output = [[0, 0]],
       learning_rate = 1 / 10,
       z_hidden = None, a_hidden = None, z_output = None, a_output = None \<rparr>"

section \<open>Arrays in tabulated form\<close>

lemma and_then_Inr [simp]: "and_then (Inr v) f = f v"
  by (simp add: and_then_def)

lemma and_then_Inl [simp]: "and_then (Inl e) f = Inl e"
  by (simp add: and_then_def)

lemma length_tab [simp]: "length (tab m n f) = m"
  by (simp add: tab_def)

lemma nth_tab [simp]: "i < m \<Longrightarrow> tab m n f ! i = map (f i) [0..<n]"
  by (simp add: tab_def)

lemma mat_tab [simp]: "mat m n (tab m n f)"
  by (simp add: mat_def tab_def list_all_iff)

lemma tab_cong: "(\<And>i j. i < m \<Longrightarrow> j < n \<Longrightarrow> f i j = g i j) \<Longrightarrow> tab m n f = tab m n g"
  by (simp add: tab_def)

lemma mat_eq_tab: "mat m n A \<Longrightarrow> A = tab m n (\<lambda>i j. A ! i ! j)"
  unfolding mat_def tab_def list_all_iff
  by (intro nth_equalityI) (auto simp: map_nth)

lemma ncols_tab [simp]: "0 < m \<Longrightarrow> ncols (tab m n f) = n"
  by (simp add: ncols_def tab_def upt_conv_Cons)

lemma nrows_tab [simp]: "nrows (tab m n f) = m"
  by (simp add: nrows_def)

lemma np_T_tab [simp]: "0 < m \<Longrightarrow> np_T (tab m n f) = tab n m (\<lambda>j i. f i j)"
  by (simp add: np_T_def) (simp add: tab_def)

lemma sum_list_map2_tab:
  "sum_list (map2 (*) (map f [0..<n]) (map g [0..<n])) = (\<Sum>k<n. f k * (g k :: real))"
proof -
  have "map2 (*) (map f [0..<n]) (map g [0..<n]) = map (\<lambda>k. f k * g k) [0..<n]"
    by (intro nth_equalityI) simp_all
  then show ?thesis
    by (simp add: interv_sum_list_conv_sum_set_nat atLeast0LessThan)
qed

lemma np_dot_tab [simp]:
  "0 < n \<Longrightarrow> np_dot (tab m n f) (tab n h g) = Inr (tab m h (\<lambda>i j. \<Sum>k<n. f i k * g k j))"
  by (simp add: np_dot_def list_all_iff) (simp add: tab_def sum_list_map2_tab)

lemma bdim_same [simp]: "bdim a a = Some a"
  by (simp add: bdim_def)

lemma stretch_same [simp]: "length xs = n \<Longrightarrow> stretch n xs = xs"
  by (simp add: stretch_def)

lemma nrows_Nil [simp]: "nrows [] = 0"
  by (simp add: nrows_def)

lemma tab_0 [simp]: "tab 0 n f = []"
  by (simp add: tab_def)

lemma tab_1: "tab (Suc 0) n f = [map (f 0) [0..<n]]"
  by (simp add: tab_def)

lemma map2_map_same: "map2 h (map F xs) (map G xs) = map (\<lambda>x. h (F x) (G x)) xs"
  by (induction xs) auto

lemma stretch_single: "stretch n [v] = map (\<lambda>j. v) [0..<n]"
  by (auto simp: stretch_def map_replicate_const)

lemma elementwise_tab [simp]:
  "np_elementwise op (tab m n f) (tab m n g) = Inr (tab m n (\<lambda>i j. op (f i j) (g i j)))"
proof (cases "m = 0")
  case True
  then show ?thesis by (simp add: np_elementwise_def)
next
  case False
  have "map2 (\<lambda>ra rb. map2 op (stretch n ra) (stretch n rb)) (tab m n f) (tab m n g)
        = tab m n (\<lambda>i j. op (f i j) (g i j))"
    by (simp add: tab_def map2_map_same)
  with False show ?thesis
    by (simp add: np_elementwise_def)
qed

lemma elementwise_tab_row [simp]:
  "np_elementwise op (tab m n f) (tab (Suc 0) n g) = Inr (tab m n (\<lambda>i j. op (f i j) (g 0 j)))"
proof (cases "m = 0")
  case True
  then show ?thesis by (simp add: np_elementwise_def bdim_def)
next
  case False
  then have b: "bdim m (Suc 0) = Some m"
    by (simp add: bdim_def)
  have s: "stretch m (tab (Suc 0) n g) = tab m n (\<lambda>i. g 0)"
    by (simp add: tab_1 stretch_single) (simp add: tab_def)
  have "map2 (\<lambda>ra rb. map2 op (stretch n ra) (stretch n rb)) (tab m n f) (tab m n (\<lambda>i. g 0))
        = tab m n (\<lambda>i j. op (f i j) (g 0 j))"
    by (simp add: tab_def map2_map_same)
  with False b s show ?thesis
    by (simp add: np_elementwise_def)
qed

lemma elementwise_tab_col [simp]:
  "np_elementwise op (tab m n f) (tab m (Suc 0) g) = Inr (tab m n (\<lambda>i j. op (f i j) (g i 0)))"
proof (cases "m = 0")
  case True
  then show ?thesis by (simp add: np_elementwise_def)
next
  case False
  have b: "bdim n (Suc 0) = Some n"
    by (simp add: bdim_def)
  have "map2 (\<lambda>ra rb. map2 op (stretch n ra) (stretch n rb)) (tab m n f) (tab m (Suc 0) g)
        = tab m n (\<lambda>i j. op (f i j) (g i 0))"
    by (simp add: tab_def map2_map_same stretch_single)
  with False b show ?thesis
    by (simp add: np_elementwise_def)
qed


subsection \<open>The elementwise operations and the reductions\<close>

lemma attr_Some [simp]: "attr (Some v) = Inr v"
  by (simp add: attr_def)

lemma attr_None [simp]: "attr None = Inl AttributeError"
  by (simp add: attr_def)

lemma relu_tab [simp]: "relu (tab m n f) = tab m n (\<lambda>i j. max 0 (f i j))"
  by (simp add: relu_def tab_def)

lemma relu_derivative_tab [simp]:
  "relu_derivative (tab m n f) = tab m n (\<lambda>i j. if 0 < f i j then 1 else 0)"
  by (simp add: relu_derivative_def tab_def)

lemma np_exp_tab [simp]: "np_exp (tab m n f) = tab m n (\<lambda>i j. exp (f i j))"
  by (simp add: np_exp_def tab_def)

lemma np_add_scalar_tab [simp]: "np_add_scalar (tab m n f) c = tab m n (\<lambda>i j. f i j + c)"
  by (simp add: np_add_scalar_def tab_def)

lemma np_mul_scalar_tab [simp]: "np_mul_scalar c (tab m n f) = tab m n (\<lambda>i j. c * f i j)"
  by (simp add: np_mul_scalar_def tab_def)

lemma np_div_int_tab [simp]:
  "0 < k \<Longrightarrow> np_div_int (tab m n f) k = Inr (tab m n (\<lambda>i j. f i j / real k))"
  by (simp add: np_div_int_def tab_def)

lemma set_row: "set (map g [0..<n]) = g ` {..<n}"
  by (simp add: atLeast0LessThan)

lemma np_max_axis1_tab [simp]:
  "0 < n \<Longrightarrow> np_max_axis1 (tab m n f) = Inr (tab m (Suc 0) (\<lambda>i j. Max (f i ` {..<n})))"
  by (auto simp: np_max_axis1_def list_ex_iff tab_def atLeast0LessThan)

lemma sum_list_row: "sum_list (map g [0..<n]) = (\<Sum>k<n. g k :: real)"
  by (simp add: interv_sum_list_conv_sum_set_nat atLeast0LessThan)

lemma np_sum_axis1_tab [simp]:
  "np_sum_axis1 (tab m n f) = tab m (Suc 0) (\<lambda>i j. \<Sum>c<n. f i c)"
  by (simp add: np_sum_axis1_def tab_def sum_list_row)

lemma np_sum_axis0_tab [simp]:
  "0 < m \<Longrightarrow> np_sum_axis0 (tab m n f) = tab (Suc 0) n (\<lambda>i j. \<Sum>r<m. f r j)"
  by (simp add: np_sum_axis0_def) (simp add: tab_def sum_list_row)

lemma sum_list_concat_rows: "sum_list (concat xss) = sum_list (map sum_list (xss :: real list list))"
  by (induction xss) auto

lemma np_sum_tab [simp]: "np_sum (tab m n f) = (\<Sum>i<m. \<Sum>j<n. f i j)"
  by (simp add: np_sum_def sum_list_concat_rows) (simp add: tab_def comp_def sum_list_row)

lemma concat_tab_set: "set (concat (tab m n f)) = {f i j |i j. i < m \<and> j < n}"
  by (fastforce simp: tab_def)

lemma np_log_tab [simp]:
  "(\<And>i j. i < m \<Longrightarrow> j < n \<Longrightarrow> 0 < f i j) \<Longrightarrow>
   np_log (tab m n f) = Inr (tab m n (\<lambda>i j. ln (f i j)))"
  by (auto simp: np_log_def list_ex_iff concat_tab_set not_le tab_def)

lemma np_divide_tab_col [simp]:
  "(\<And>i. i < m \<Longrightarrow> g i 0 \<noteq> 0) \<Longrightarrow>
   np_divide (tab m n f) (tab m (Suc 0) g) = Inr (tab m n (\<lambda>i j. f i j / g i 0))"
proof -
  assume nz: "\<And>i. i < m \<Longrightarrow> g i 0 \<noteq> 0"
  have "\<not> list_ex (\<lambda>v. v = 0) (concat (tab m (Suc 0) g))"
    using nz by (auto simp: list_ex_iff tab_def)
  then show ?thesis
    by (simp add: np_divide_def)
qed

lemma sum_exp_pos: "0 < (n::nat) \<Longrightarrow> 0 < (\<Sum>c<n. exp (g c :: real))"
  by (rule sum_pos) auto

lemma softmax_tab:
  assumes "0 < n"
  shows "softmax (tab m n z) =
         Inr (tab m n (\<lambda>i j. exp (z i j - Max (z i ` {..<n})) /
                               (\<Sum>c<n. exp (z i c - Max (z i ` {..<n})))))"
proof -
  have "\<And>i. (\<Sum>c<n. exp (z i c - Max (z i ` {..<n}))) \<noteq> 0"
    using sum_exp_pos [OF assms] by (metis less_irrefl)
  with assms show ?thesis
    by (simp add: softmax_def np_subtract_def Let_def)
qed


subsection \<open>The two passes on tabulated arrays, and on well-formed networks\<close>

lemma forward_on_tabs:
  fixes x w1 b1 w2 b2 :: "nat \<Rightarrow> nat \<Rightarrow> real"
  assumes "weights_input_to_hidden self = tab ni nh w1"
    and "bias_hidden self = tab (Suc 0) nh b1"
    and "weights_hidden_to_output self = tab nh no w2"
    and "bias_output self = tab (Suc 0) no b2"
    and "0 < ni" "0 < nh" "0 < no"
  defines "zh \<equiv> \<lambda>i j. (\<Sum>k<ni. x i k * w1 k j) + b1 0 j"
  defines "zo \<equiv> \<lambda>i c. (\<Sum>j<nh. max 0 (zh i j) * w2 j c) + b2 0 c"
  defines "ao \<equiv> \<lambda>i c. exp (zo i c - Max (zo i ` {..<no})) / (\<Sum>c'<no. exp (zo i c' - Max (zo i ` {..<no})))"
  shows "forward self (tab m ni x) =
         (Inr (tab m no ao),
          self\<lparr>z_hidden := Some (tab m nh zh), a_hidden := Some (tab m nh (\<lambda>i j. max 0 (zh i j))),
               z_output := Some (tab m no zo), a_output := Some (tab m no ao)\<rparr>)"
  using assms(1-7) unfolding zh_def zo_def ao_def
  by (simp add: forward_def np_add_def softmax_tab Let_def)


lemma net_wf_tabs:
  assumes "net_wf self"
  shows "weights_input_to_hidden self =
           tab (input_size self) (hidden_size self) (\<lambda>k j. weights_input_to_hidden self ! k ! j)"
    and "bias_hidden self = tab (Suc 0) (hidden_size self) (\<lambda>r j. bias_hidden self ! r ! j)"
    and "weights_hidden_to_output self =
           tab (hidden_size self) (output_size self) (\<lambda>j c. weights_hidden_to_output self ! j ! c)"
    and "bias_output self = tab (Suc 0) (output_size self) (\<lambda>r c. bias_output self ! r ! c)"
    and "0 < input_size self" and "0 < hidden_size self" and "0 < output_size self"
  using assms mat_eq_tab unfolding net_wf_def by auto

lemma forward_wf:
  assumes wf: "net_wf self" and X: "mat m (input_size self) X"
  shows "forward self X =
         (Inr (forward_spec self X),
          self\<lparr>z_hidden := Some (tab m (hidden_size self) (spec_z_hidden self X)),
               a_hidden := Some (tab m (hidden_size self) (spec_a_hidden self X)),
               z_output := Some (tab m (output_size self) (spec_z_output self X)),
               a_output := Some (forward_spec self X)\<rparr>)"
proof -
  let ?x = "\<lambda>i k. X ! i ! k"
  let ?w1 = "\<lambda>k j. weights_input_to_hidden self ! k ! j"
  let ?b1 = "\<lambda>r j. bias_hidden self ! r ! j"
  let ?w2 = "\<lambda>j c. weights_hidden_to_output self ! j ! c"
  let ?b2 = "\<lambda>r c. bias_output self ! r ! c"
  note t = net_wf_tabs [OF wf]
  have Xt: "tab m (input_size self) ?x = X"
    using mat_eq_tab [OF X] by simp
  have m: "nrows X = m"
    using X by (simp add: mat_def nrows_def)
  show ?thesis
    using forward_on_tabs [OF t, of m ?x]
    by (simp add: Xt m forward_spec_def spec_a_output_def [abs_def] spec_z_output_def [abs_def]
          spec_a_hidden_def [abs_def] spec_z_hidden_def [abs_def] Let_def)
qed


lemma backward_body_on_tabs:
  fixes x y ao ah zh w2 :: "nat \<Rightarrow> nat \<Rightarrow> real"
  assumes "a_output self = Some (tab m no ao)"
    and "a_hidden self = Some (tab m nh ah)"
    and "z_hidden self = Some (tab m nh zh)"
    and "weights_hidden_to_output self = tab nh no w2"
    and "0 < m" "0 < nh" "0 < no"
  defines "dzo \<equiv> \<lambda>i c. ao i c - y i c"
  defines "dzh \<equiv> \<lambda>i j. (\<Sum>c<no. dzo i c * w2 j c) * (if 0 < zh i j then 1 else 0)"
  shows "backward_body self (tab m ni x) (tab m no y) =
         Inr \<lparr> dz_output = tab m no dzo,
               dw_hidden_to_output = tab nh no (\<lambda>j c. (\<Sum>i<m. ah i j * dzo i c) / real m),
               db_output = tab (Suc 0) no (\<lambda>r c. (\<Sum>i<m. dzo i c) / real m),
               da_hidden = tab m nh (\<lambda>i j. \<Sum>c<no. dzo i c * w2 j c),
               dz_hidden = tab m nh dzh,
               dw_input_to_hidden = tab ni nh (\<lambda>k j. (\<Sum>i<m. x i k * dzh i j) / real m),
               db_hidden = tab (Suc 0) nh (\<lambda>r j. (\<Sum>i<m. dzh i j) / real m) \<rparr>"
  using assms(1-7) unfolding dzo_def dzh_def
  by (simp add: backward_body_def np_subtract_def np_multiply_def Let_def)

lemma backward_body_wf:
  assumes wf: "net_wf self" and X: "mat m (input_size self) X"
    and Y: "mat m (output_size self) Y" and m: "0 < m"
  shows "backward_body (snd (forward self X)) X Y =
         Inr \<lparr> dz_output = tab m (output_size self) (spec_dz_output self X Y),
               dw_hidden_to_output = spec_dw_hidden_to_output self X Y,
               db_output = spec_db_output self X Y,
               da_hidden = tab m (hidden_size self) (spec_da_hidden self X Y),
               dz_hidden = tab m (hidden_size self) (spec_dz_hidden self X Y),
               dw_input_to_hidden = spec_dw_input_to_hidden self X Y,
               db_hidden = spec_db_hidden self X Y \<rparr>"
proof -
  let ?x = "\<lambda>i k. X ! i ! k"
  let ?y = "\<lambda>i c. Y ! i ! c"
  let ?s = "snd (forward self X)"
  note t = net_wf_tabs [OF wf]
  have Xt: "tab m (input_size self) ?x = X"
    using mat_eq_tab [OF X] by simp
  have Yt: "tab m (output_size self) ?y = Y"
    using mat_eq_tab [OF Y] by simp
  have mX: "nrows X = m"
    using X by (simp add: mat_def nrows_def)
  have c: "a_output ?s = Some (tab m (output_size self) (spec_a_output self X))"
    "a_hidden ?s = Some (tab m (hidden_size self) (spec_a_hidden self X))"
    "z_hidden ?s = Some (tab m (hidden_size self) (spec_z_hidden self X))"
    "weights_hidden_to_output ?s = tab (hidden_size self) (output_size self)
        (\<lambda>j c. weights_hidden_to_output self ! j ! c)"
    using t(3) by (simp_all add: forward_wf [OF wf X] forward_spec_def mX)
  show ?thesis
    using backward_body_on_tabs [OF c m t(6) t(7), of "input_size self" ?x ?y]
    by (simp add: Xt Yt mX spec_dz_output_def [abs_def] spec_dw_hidden_to_output_def
          spec_db_output_def spec_da_hidden_def [abs_def] spec_dz_hidden_def [abs_def]
          spec_relu_derivative_def spec_dw_input_to_hidden_def spec_db_hidden_def)
qed


lemma spec_a_output_pos:
  assumes "0 < output_size self"
  shows "0 < spec_a_output self X i c"
  unfolding spec_a_output_def Let_def
  by (intro divide_pos_pos sum_exp_pos assms) simp

section \<open>What \<open>forward\<close> changes\<close>

lemma forward_idem: "forward (snd (forward self x)) x = forward self x"
  by (simp add: forward_def Let_def split: sum.split)

lemma snd_predict: "snd (predict self x) = snd (forward self x)"
  by (simp add: predict_def split: prod.split sum.split)

lemma predict_idem: "predict (snd (predict self x)) x = predict self x"
  by (simp add: snd_predict) (simp add: predict_def forward_idem)


lemma forward_params:
  "weights_input_to_hidden (snd (forward self x)) = weights_input_to_hidden self"
  "weights_hidden_to_output (snd (forward self x)) = weights_hidden_to_output self"
  "bias_hidden (snd (forward self x)) = bias_hidden self"
  "bias_output (snd (forward self x)) = bias_output self"
  "learning_rate (snd (forward self x)) = learning_rate self"
  by (simp_all add: forward_def Let_def split: sum.split)

lemma forward_cache_irrelevant:
  "fst (forward (self\<lparr>z_hidden := a, a_hidden := b, z_output := c, a_output := d\<rparr>) x)
   = fst (forward self x)"
  by (simp add: forward_def Let_def split: sum.split)



section \<open>The first index of a maximum\<close>

lemma argmax_scan_spec:
  assumes "r = pre @ vs" and "mi < length pre" and "mv = r ! mi"
    and "\<forall>c<length pre. r ! c \<le> mv" and "\<forall>c<mi. r ! c < mv"
  shows "argmax_scan vs (length pre) mv mi < length r \<and>
         (\<forall>c<length r. r ! c \<le> r ! argmax_scan vs (length pre) mv mi) \<and>
         (\<forall>c<argmax_scan vs (length pre) mv mi. r ! c < r ! argmax_scan vs (length pre) mv mi)"
  using assms
proof (induction vs arbitrary: pre mv mi)
  case Nil
  then show ?case by simp
next
  case (Cons v vs)
  have r: "r = (pre @ [v]) @ vs"
    using Cons.prems(1) by simp
  have v: "r ! length pre = v"
    using Cons.prems(1) by simp
  show ?case
  proof (cases "mv < v")
    case True
    have a: "\<forall>c<length (pre @ [v]). r ! c \<le> v"
      using Cons.prems(4) True v by (auto simp: less_Suc_eq)
    have b: "\<forall>c<length pre. r ! c < v"
      using Cons.prems(4) True by fastforce
    have "argmax_scan vs (length (pre @ [v])) v (length pre) < length r \<and>
          (\<forall>c<length r. r ! c \<le> r ! argmax_scan vs (length (pre @ [v])) v (length pre)) \<and>
          (\<forall>c<argmax_scan vs (length (pre @ [v])) v (length pre).
              r ! c < r ! argmax_scan vs (length (pre @ [v])) v (length pre))"
      by (rule Cons.IH [OF r _ _ a b]) (simp_all add: v)
    with True show ?thesis by simp
  next
    case False
    have a: "\<forall>c<length (pre @ [v]). r ! c \<le> mv"
      using Cons.prems(4) False v by (auto simp: less_Suc_eq)
    have "argmax_scan vs (length (pre @ [v])) mv mi < length r \<and>
          (\<forall>c<length r. r ! c \<le> r ! argmax_scan vs (length (pre @ [v])) mv mi) \<and>
          (\<forall>c<argmax_scan vs (length (pre @ [v])) mv mi.
              r ! c < r ! argmax_scan vs (length (pre @ [v])) mv mi)"
      using Cons.prems(2) by (intro Cons.IH [OF r _ Cons.prems(3) a Cons.prems(5)]) simp
    with False show ?thesis by simp
  qed
qed

lemma argmax_spec:
  assumes "r \<noteq> []"
  shows "argmax r < length r \<and> (\<forall>c<length r. r ! c \<le> r ! argmax r) \<and>
         (\<forall>c<argmax r. r ! c < r ! argmax r)"
proof -
  obtain v vs where r: "r = [v] @ vs"
    using assms by (cases r) auto
  have "argmax_scan vs (length [v]) v 0 < length r \<and>
        (\<forall>c<length r. r ! c \<le> r ! argmax_scan vs (length [v]) v 0) \<and>
        (\<forall>c<argmax_scan vs (length [v]) v 0. r ! c < r ! argmax_scan vs (length [v]) v 0)"
    by (rule argmax_scan_spec [OF r]) (simp_all add: r)
  then show ?thesis
    by (simp add: argmax_def r)
qed

section \<open>One epoch, and the loop of \<open>train\<close>\<close>

lemma map_length_tab: "map length (tab m n f) = replicate m n"
  by (simp add: tab_def comp_def map_replicate_const)

lemma np_isub_tab [simp]:
  "np_isub (tab m n f) (tab m n g) = Inr (tab m n (\<lambda>i j. f i j - g i j))"
  by (simp add: np_isub_def np_subtract_def map_length_tab)

lemma update_parameters_on_tabs:
  fixes w1 b1 w2 b2 g1 g2 g3 g4 :: "nat \<Rightarrow> nat \<Rightarrow> real"
  assumes "weights_input_to_hidden self = tab ni nh w1"
    and "bias_hidden self = tab (Suc 0) nh b1"
    and "weights_hidden_to_output self = tab nh no w2"
    and "bias_output self = tab (Suc 0) no b2"
  shows "update_parameters self (tab ni nh g1) (tab (Suc 0) nh g2) (tab nh no g3) (tab (Suc 0) no g4) =
         (Inr (),
          self\<lparr>weights_input_to_hidden := tab ni nh (\<lambda>i j. w1 i j - learning_rate self * g1 i j),
               bias_hidden := tab (Suc 0) nh (\<lambda>i j. b1 i j - learning_rate self * g2 i j),
               weights_hidden_to_output := tab nh no (\<lambda>i j. w2 i j - learning_rate self * g3 i j),
               bias_output := tab (Suc 0) no (\<lambda>i j. b2 i j - learning_rate self * g4 i j)\<rparr>)"
  using assms by (simp add: update_parameters_def Let_def)

lemma compute_loss_on_tabs:
  fixes y p :: "nat \<Rightarrow> nat \<Rightarrow> real"
  assumes "0 < m" and "\<And>i c. i < m \<Longrightarrow> c < n \<Longrightarrow> 0 < p i c + 1 / 10 ^ 9"
  shows "compute_loss (tab m n y) (tab m n p) =
         Inr (- (\<Sum>i<m. \<Sum>c<n. y i c * ln (p i c + 1 / 10 ^ 9)) / real m)"
proof -
  have lg: "np_log (tab m n (\<lambda>i c. p i c + 1 / 10 ^ 9)) =
        Inr (tab m n (\<lambda>i c. ln (p i c + 1 / 10 ^ 9)))"
    by (rule np_log_tab) (rule assms(2))
  have "compute_loss (tab m n y) (tab m n p) =
        and_then (np_log (tab m n (\<lambda>i c. p i c + 1 / 10 ^ 9))) (\<lambda>lg.
        and_then (np_multiply (tab m n y) lg) (\<lambda>prod.
        if m = 0 then Inl NotFinite else Inr (- np_sum prod / real m)))"
    unfolding compute_loss_def Let_def nrows_tab np_add_scalar_tab ..
  also have "\<dots> = Inr (- (\<Sum>i<m. \<Sum>c<n. y i c * ln (p i c + 1 / 10 ^ 9)) / real m)"
    using assms(1) lg by (simp add: np_multiply_def del: np_log_tab)
  finally show ?thesis .
qed

lemma mat_nrows: "mat m n A \<Longrightarrow> nrows A = m"
  by (simp add: mat_def nrows_def)

lemma mat_ncols: "mat m n A \<Longrightarrow> 0 < m \<Longrightarrow> ncols A = n"
  by (cases A) (simp_all add: mat_def ncols_def)

lemma update_parameters_wf:
  assumes "mat ni nh (weights_input_to_hidden self)" and "mat (Suc 0) nh (bias_hidden self)"
    and "mat nh no (weights_hidden_to_output self)" and "mat (Suc 0) no (bias_output self)"
    and "mat ni nh g1" and "mat (Suc 0) nh g2" and "mat nh no g3" and "mat (Suc 0) no g4"
  shows "\<exists>s'. update_parameters self g1 g2 g3 g4 = (Inr (), s') \<and>
           mat ni nh (weights_input_to_hidden s') \<and> mat (Suc 0) nh (bias_hidden s') \<and>
           mat nh no (weights_hidden_to_output s') \<and> mat (Suc 0) no (bias_output s')"
proof -
  note p = assms(1-4) [THEN mat_eq_tab]
  note g = assms(5-8) [THEN mat_eq_tab]
  have "update_parameters self (tab ni nh (\<lambda>i j. g1 ! i ! j)) (tab (Suc 0) nh (\<lambda>i j. g2 ! i ! j))
          (tab nh no (\<lambda>i j. g3 ! i ! j)) (tab (Suc 0) no (\<lambda>i j. g4 ! i ! j)) =
        (Inr (),
          self\<lparr>weights_input_to_hidden :=
                 tab ni nh (\<lambda>i j. weights_input_to_hidden self ! i ! j - learning_rate self * g1 ! i ! j),
               bias_hidden :=
                 tab (Suc 0) nh (\<lambda>i j. bias_hidden self ! i ! j - learning_rate self * g2 ! i ! j),
               weights_hidden_to_output :=
                 tab nh no (\<lambda>i j. weights_hidden_to_output self ! i ! j - learning_rate self * g3 ! i ! j),
               bias_output :=
                 tab (Suc 0) no (\<lambda>i j. bias_output self ! i ! j - learning_rate self * g4 ! i ! j)\<rparr>)"
    by (rule update_parameters_on_tabs [OF p])
  then show ?thesis
    unfolding g [symmetric] by simp
qed


lemma loss_after_forward:
  assumes wf: "net_wf self" and X: "mat m (input_size self) X"
    and Y: "mat m (output_size self) Y" and m: "0 < m"
  shows "compute_loss Y (forward_spec self X) =
         Inr (- (\<Sum>i<m. \<Sum>c<output_size self.
                 Y ! i ! c * ln (spec_a_output self X i c + 1 / 10 ^ 9)) / real m)"
proof -
  have no: "0 < output_size self"
    using wf by (simp add: net_wf_def)
  have mX: "nrows X = m"
    using X by (rule mat_nrows)
  have Yt: "tab m (output_size self) (\<lambda>i c. Y ! i ! c) = Y"
    using mat_eq_tab [OF Y] by simp
  have eps: "(0::real) < 1 / 10 ^ 9"
    by simp
  have "compute_loss (tab m (output_size self) (\<lambda>i c. Y ! i ! c))
          (tab m (output_size self) (spec_a_output self X)) =
        Inr (- (\<Sum>i<m. \<Sum>c<output_size self.
                 Y ! i ! c * ln (spec_a_output self X i c + 1 / 10 ^ 9)) / real m)"
  proof (rule compute_loss_on_tabs [OF m])
    fix i c
    show "0 < spec_a_output self X i c + 1 / 10 ^ 9"
      using spec_a_output_pos [OF no, of X i c] eps by (rule add_pos_pos)
  qed
  then show ?thesis
    unfolding Yt forward_spec_def mX .
qed


lemma update_after_backward:
  assumes wf: "net_wf self"
  shows "\<exists>s'. update_parameters (snd (forward self X)) (spec_dw_input_to_hidden self X Y)
               (spec_db_hidden self X Y) (spec_dw_hidden_to_output self X Y)
               (spec_db_output self X Y) = (Inr (), s') \<and>
             net_wf s' \<and> input_size s' = input_size self \<and>
             hidden_size s' = hidden_size self \<and> output_size s' = output_size self"
proof -
  let ?s1 = "snd (forward self X)"
  have pos: "0 < input_size self" "0 < hidden_size self" "0 < output_size self"
    using wf by (simp_all add: net_wf_def)
  have p: "mat (input_size self) (hidden_size self) (weights_input_to_hidden ?s1)"
    "mat (Suc 0) (hidden_size self) (bias_hidden ?s1)"
    "mat (hidden_size self) (output_size self) (weights_hidden_to_output ?s1)"
    "mat (Suc 0) (output_size self) (bias_output ?s1)"
    using wf by (simp_all add: forward_params net_wf_def)
  have g: "mat (input_size self) (hidden_size self) (spec_dw_input_to_hidden self X Y)"
    "mat (Suc 0) (hidden_size self) (spec_db_hidden self X Y)"
    "mat (hidden_size self) (output_size self) (spec_dw_hidden_to_output self X Y)"
    "mat (Suc 0) (output_size self) (spec_db_output self X Y)"
    by (simp_all add: spec_dw_input_to_hidden_def spec_db_hidden_def
          spec_dw_hidden_to_output_def spec_db_output_def)
  from update_parameters_wf [OF p g] obtain s' where
    u: "update_parameters ?s1 (spec_dw_input_to_hidden self X Y) (spec_db_hidden self X Y)
          (spec_dw_hidden_to_output self X Y) (spec_db_output self X Y) = (Inr (), s')"
    and s': "mat (input_size self) (hidden_size self) (weights_input_to_hidden s')"
      "mat (Suc 0) (hidden_size self) (bias_hidden s')"
      "mat (hidden_size self) (output_size self) (weights_hidden_to_output s')"
      "mat (Suc 0) (output_size self) (bias_output s')"
    by blast
  have sz: "input_size s' = input_size self" "hidden_size s' = hidden_size self"
    "output_size s' = output_size self"
    using s'(1,3) pos(2)
    by (simp_all add: input_size_def hidden_size_def output_size_def mat_nrows mat_ncols)
  have "net_wf s'"
    using s' pos unfolding net_wf_def sz by simp
  with u sz show ?thesis by blast
qed


lemma epoch_ok:
  assumes wf: "net_wf self" and X: "mat m (input_size self) X"
    and Y: "mat m (output_size self) Y" and m: "0 < m"
  shows "\<exists>l s'. epoch_spec self X Y = Inr (l, s') \<and> net_wf s' \<and>
           input_size s' = input_size self \<and> hidden_size s' = hidden_size self \<and>
           output_size s' = output_size self"
proof -
  from update_after_backward [OF wf, of X Y] obtain s' where
    u: "update_parameters (snd (forward self X)) (spec_dw_input_to_hidden self X Y)
          (spec_db_hidden self X Y) (spec_dw_hidden_to_output self X Y)
          (spec_db_output self X Y) = (Inr (), s')"
    and s': "net_wf s'" "input_size s' = input_size self"
      "hidden_size s' = hidden_size self" "output_size s' = output_size self"
    by blast
  have b: "backward_body (snd (forward self X)) X Y =
         Inr \<lparr> dz_output = tab m (output_size self) (spec_dz_output self X Y),
               dw_hidden_to_output = spec_dw_hidden_to_output self X Y,
               db_output = spec_db_output self X Y,
               da_hidden = tab m (hidden_size self) (spec_da_hidden self X Y),
               dz_hidden = tab m (hidden_size self) (spec_dz_hidden self X Y),
               dw_input_to_hidden = spec_dw_input_to_hidden self X Y,
               db_hidden = spec_db_hidden self X Y \<rparr>"
    by (rule backward_body_wf [OF assms])
  have "epoch_spec self X Y =
        Inr (- (\<Sum>i<m. \<Sum>c<output_size self.
                 Y ! i ! c * ln (spec_a_output self X i c + 1 / 10 ^ 9)) / real m, s')"
    using u b
    by (simp add: epoch_spec_def forward_wf [OF wf X] loss_after_forward [OF assms]
          backward_def)
  with s' show ?thesis by blast
qed

lemma train_loop_step:
  assumes "epoch_spec self X Y = Inr (l, s')"
  shows "train_loop X Y (e # rest) (self, hist, out) =
         train_loop X Y rest (s', hist @ [l], if e mod 100 = 0 then out @ [(e, l)] else out)"
  using assms
  by (auto simp: epoch_spec_def Let_def and_then_def split: prod.splits sum.splits)


lemma filter_upt_Suc:
  "map g (filter P [0..<Suc n]) =
   (if P 0 then [g 0] else []) @ map (\<lambda>k. g (Suc k)) (filter (\<lambda>k. P (Suc k)) [0..<n])"
proof -
  have "[0..<Suc n] = 0 # map Suc [0..<n]"
    by (simp add: upt_conv_Cons map_Suc_upt del: upt_Suc)
  then show ?thesis
    by (simp add: filter_map comp_def del: upt_Suc)
qed

lemma train_loop_trace:
  assumes "net_wf self" and "mat m (input_size self) X"
    and "mat m (output_size self) Y" and "0 < m"
  shows "\<exists>nets losses. length nets = Suc n \<and> length losses = n \<and> nets ! 0 = self \<and>
           (\<forall>k<n. epoch_spec (nets ! k) X Y = Inr (losses ! k, nets ! Suc k)) \<and>
           train_loop X Y [a..<a + n] (self, hist, out) =
             (Inr (), (nets ! n, hist @ losses,
                       out @ map (\<lambda>k. (a + k, losses ! k))
                               (filter (\<lambda>k. (a + k) mod 100 = 0) [0..<n])))"
  using assms
proof (induction n arbitrary: self a hist out)
  case 0
  show ?case
    by (intro exI [of _ "[self]"] exI [of _ "[]"]) simp
next
  case (Suc n)
  from epoch_ok [OF Suc.prems] obtain l s' where
    e: "epoch_spec self X Y = Inr (l, s')" and wf': "net_wf s'"
    and sz: "input_size s' = input_size self" "output_size s' = output_size self"
    by blast
  let ?out = "if a mod 100 = 0 then out @ [(a, l)] else out"
  from Suc.IH [of s' "Suc a" "hist @ [l]" ?out] wf' Suc.prems(2-4) sz
  obtain nets losses where
    len: "length nets = Suc n" "length losses = n" and hd: "nets ! 0 = s'"
    and steps: "\<forall>k<n. epoch_spec (nets ! k) X Y = Inr (losses ! k, nets ! Suc k)"
    and run: "train_loop X Y [Suc a..<Suc a + n] (s', hist @ [l], ?out) =
             (Inr (), (nets ! n, (hist @ [l]) @ losses,
                       ?out @ map (\<lambda>k. (Suc a + k, losses ! k))
                               (filter (\<lambda>k. (Suc a + k) mod 100 = 0) [0..<n])))"
    by auto
  have upt: "[a..<a + Suc n] = a # [Suc a..<Suc a + n]"
    by (simp add: upt_conv_Cons del: upt_Suc)
  have 1: "length (self # nets) = Suc (Suc n)" "length (l # losses) = Suc n"
    "(self # nets) ! 0 = self"
    using len by simp_all
  have 2: "epoch_spec ((self # nets) ! k) X Y = Inr ((l # losses) ! k, (self # nets) ! Suc k)"
    if "k < Suc n" for k
    using that e hd steps by (cases k) simp_all
  have 3: "train_loop X Y [a..<a + Suc n] (self, hist, out) =
           (Inr (), ((self # nets) ! Suc n, hist @ (l # losses),
                     out @ map (\<lambda>k. (a + k, (l # losses) ! k))
                             (filter (\<lambda>k. (a + k) mod 100 = 0) [0..<Suc n])))"
    unfolding upt train_loop_step [OF e] run
      filter_upt_Suc [of "\<lambda>k. (a + k, (l # losses) ! k)" "\<lambda>k. (a + k) mod 100 = 0" n]
    by simp
  from 1 2 3 show ?case
    by (intro exI [of _ "self # nets"] exI [of _ "l # losses"]) blast
qed


subsection \<open>One-hot rows, and the gate of the hidden layer\<close>

lemma one_hot_row_sum:
  assumes "t < n" and "r = (replicate n 0)[t := 1]"
  shows "(\<Sum>c<n. r ! c * g c) = (g t :: real)"
proof -
  have "(\<Sum>c<n. r ! c * g c) = (\<Sum>c<n. if c = t then g c else 0)"
    using assms by (intro sum.cong) (auto simp: nth_list_update)
  also have "\<dots> = g t"
    using assms(1) by simp
  finally show ?thesis .
qed

lemma one_hot_row:
  assumes "one_hot Y" and "mat m n Y" and "i < m"
  obtains t where "t < n" and "Y ! i ! t = 1" and "\<And>g. (\<Sum>c<n. Y ! i ! c * g c) = (g t :: real)"
proof -
  have len: "length (Y ! i) = n" and mem: "Y ! i \<in> set Y"
    using assms(2,3) by (auto simp: mat_def list_all_iff)
  from assms(1) mem obtain t where t: "t < n" "Y ! i = (replicate n 0)[t := 1]"
    unfolding one_hot_def list_all_iff list_ex_iff len by (auto simp: len)
  have "Y ! i ! t = 1"
    using t by simp
  moreover have "(\<Sum>c<n. Y ! i ! c * g c) = (g t :: real)" for g
    using t by (rule one_hot_row_sum)
  ultimately show ?thesis
    using t(1) that by blast
qed

lemma relu_gate:
  assumes "mat r c D"
  shows "np_multiply D (relu_derivative (tab r c z)) =
         Inr (tab r c (\<lambda>i j. D ! i ! j * (if 0 < z i j then 1 else 0)))"
proof -
  have D: "tab r c (\<lambda>i j. D ! i ! j) = D"
    using mat_eq_tab [OF assms] by simp
  have "np_multiply (tab r c (\<lambda>i j. D ! i ! j)) (relu_derivative (tab r c z)) =
        Inr (tab r c (\<lambda>i j. D ! i ! j * (if 0 < z i j then 1 else 0)))"
    by (simp add: np_multiply_def)
  then show ?thesis
    unfolding D .
qed

section \<open>The constructor, and the model at work\<close>

lemma init_wf:
  assumes "0 < input_size'" and "0 < hidden_size'" and "0 < output_size'"
    and "mat input_size' hidden_size' rand_ih" and "mat hidden_size' output_size' rand_ho"
  shows "net_wf (init input_size' hidden_size' output_size' lr rand_ih rand_ho)"
proof -
  from assms(4,5) obtain f g where "rand_ih = tab input_size' hidden_size' f"
    and "rand_ho = tab hidden_size' output_size' g"
    using mat_eq_tab by blast
  moreover have "mat (Suc 0) k [replicate k 0]" for k
    by (simp add: mat_def)
  ultimately show ?thesis
    using assms(1-3)
    by (simp add: init_def net_wf_def input_size_def hidden_size_def output_size_def)
qed

lemmas np_defs =
  np_elementwise_def np_add_def np_subtract_def np_multiply_def np_divide_def bdim_def
  stretch_def nrows_def ncols_def np_T_def np_dot_def np_sum_axis0_def np_sum_axis1_def
  np_max_axis1_def np_exp_def np_log_def np_div_int_def np_isub_def np_mul_scalar_def
  np_add_scalar_def np_sum_def relu_def relu_derivative_def

lemma broadcast_examples:
  "np_add [[1, 2], [3, 4]] [[10, 20]] = Inr [[11, 22], [13, 24]]"
  "np_subtract [[1, 2], [3, 4]] [[1], [3]] = Inr [[0, 1], [0, 1]]"
  "np_add [[1, 2], [3, 4]] [[10, 20, 30]] = Inl ValueError"
  "np_isub [[1, 2]] [[1, 1], [2, 2]] = Inl ValueError"
  by (simp_all add: np_defs)

lemma dot_examples:
  "np_dot [[1, 2], [3, 4]] [[5, 6], [7, 8]] = Inr [[19, 22], [43, 50]]"
  "np_dot [[1, 2], [3, 4]] [[5, 6]] = Inl ValueError"
  "np_T [[1, 2, 3], [4, 5, 6]] = [[1, 4], [2, 5], [3, 6]]"
  by (simp_all add: np_defs upt_conv_Cons del: upt_Suc)

lemma argmax_examples:
  "np_argmax_axis1 [[1, 3, 3, 2], [5, 5, 5, 5], [0, 0, 1, 1]] = Inr [1, 0, 2]"
  "np_argmax_axis1 [[1], []] = Inl ValueError"
  by (simp_all add: np_argmax_axis1_def argmax_def)

lemma forward_example: "fst (forward example_net [[1]]) = Inr [[1 / 2, 1 / 2]]"
  by (simp add: forward_def softmax_def np_defs example_net_def upt_conv_Cons Let_def
        del: upt_Suc)

lemma backward_before_forward: "fst (backward example_net [[1]] [[1, 0]]) = Inl AttributeError"
  by (simp add: backward_def backward_body_def example_net_def)

lemma forward_wrong_width: "fst (forward example_net [[1, 2]]) = Inl ValueError"
  by (simp add: forward_def np_defs example_net_def)

lemma ex_sizes:
  "input_size example_net = 1" "hidden_size example_net = 2" "output_size example_net = 2"
  by (simp_all add: example_net_def input_size_def hidden_size_def output_size_def
        nrows_def ncols_def)

lemma ex_fields:
  "weights_input_to_hidden example_net = [[1, 1]]"
  "weights_hidden_to_output example_net = [[1, 0], [0, 1]]"
  "bias_hidden example_net = [[0, 0]]"
  "bias_output example_net = [[0, 0]]"
  by (simp_all add: example_net_def)

lemma ex_wf: "net_wf example_net"
  by (simp add: net_wf_def ex_sizes) (simp add: example_net_def mat_def)

lemmas ex_eval =
  ex_sizes ex_fields nrows_def tab_def numeral_2_eq_2 lessThan_Suc
  spec_a_output_def spec_z_output_def spec_a_hidden_def spec_z_hidden_def

section \<open>The claims\<close>

text \<open>
  Claim C1. For a well-formed network, a batch \<open>X\<close> with \<open>m > 0\<close> rows and a label matrix
  \<open>Y\<close> with as many rows (a one-hot matrix in particular), \<open>backward(X, Y)\<close> called right
  after \<open>forward(X)\<close> assigns to its locals the values of the chain-rule formulas,
  \<open>dZ_out = Y_pred - Y\<close>, \<open>dW_ho = A_hidden\<^sup>T\<cdot>dZ_out / m\<close>, \<open>db_o = colsum(dZ_out) / m\<close>,
  \<open>dA_hidden = dZ_out\<cdot>W_ho\<^sup>T\<close>, \<open>dZ_hidden = dA_hidden * ReLU'(Z_hidden)\<close>,
  \<open>dW_ih = X\<^sup>T\<cdot>dZ_hidden / m\<close>, \<open>db_h = colsum(dZ_hidden) / m\<close>, and returns the four
  gradients in the order \<open>(dW_ih, db_h, dW_ho, db_o)\<close>.
\<close>

theorem backward_chain_rule:
  assumes "net_wf self" and "mat m (input_size self) X"
    and "mat m (output_size self) Y" and "0 < m"
  shows "backward_body (snd (forward self X)) X Y =
         Inr \<lparr> dz_output = tab m (output_size self) (spec_dz_output self X Y),
               dw_hidden_to_output = spec_dw_hidden_to_output self X Y,
               db_output = spec_db_output self X Y,
               da_hidden = tab m (hidden_size self) (spec_da_hidden self X Y),
               dz_hidden = tab m (hidden_size self) (spec_dz_hidden self X Y),
               dw_input_to_hidden = spec_dw_input_to_hidden self X Y,
               db_hidden = spec_db_hidden self X Y \<rparr> \<and>
         backward (snd (forward self X)) X Y =
         (Inr (spec_dw_input_to_hidden self X Y, spec_db_hidden self X Y,
               spec_dw_hidden_to_output self X Y, spec_db_output self X Y),
          snd (forward self X))"
  by (simp add: backward_def backward_body_wf [OF assms])

theorem backward_chain_rule_witness:
  "fst (backward (snd (forward example_net [[1]])) [[1]] [[1, 0]]) =
   Inr ([[- 1 / 2, 1 / 2]], [[- 1 / 2, 1 / 2]],
        [[- 1 / 2, 1 / 2], [- 1 / 2, 1 / 2]], [[- 1 / 2, 1 / 2]])"
proof -
  have X: "mat 1 (input_size example_net) [[1]]"
    by (simp add: mat_def ex_sizes)
  have Y: "mat 1 (output_size example_net) [[1, 0]]"
    by (simp add: mat_def ex_sizes)
  show ?thesis
    using backward_chain_rule [OF ex_wf X Y]
    by (simp add: ex_eval spec_dw_input_to_hidden_def spec_db_hidden_def
          spec_dw_hidden_to_output_def spec_db_output_def spec_dz_hidden_def
          spec_da_hidden_def spec_dz_output_def spec_relu_derivative_def)
qed

text \<open>
  Claim C2. For a well-formed network and a batch \<open>X\<close> of shape
  \<open>[batch_size \<times> input_size]\<close>, \<open>forward(X)\<close> returns the array whose entry \<open>(i, c)\<close> is the
  softmax, shifted by the maximum of row \<open>i\<close> and divided by the row sum, of the output
  pre-activation \<open>A_hidden\<cdot>W_ho + b_o\<close>, where \<open>A_hidden = max(0, X\<cdot>W_ih + b_h)\<close>.
\<close>

theorem forward_formula:
  assumes "net_wf self" and "mat m (input_size self) X"
  shows "fst (forward self X) = Inr (forward_spec self X)"
  by (simp add: forward_wf [OF assms])

theorem forward_formula_witness:
  "fst (forward example_net [[1], [3]]) = Inr [[1 / 2, 1 / 2], [1 / 2, 1 / 2]]"
proof -
  have X: "mat 2 (input_size example_net) [[1], [3]]"
    by (simp add: mat_def ex_sizes)
  show ?thesis
    using forward_formula [OF ex_wf X]
    by (simp add: forward_spec_def ex_eval)
qed

text \<open>
  Claim C3, as amended. For a one-hot \<open>Y_true\<close> with at least one row and a \<open>Y_pred\<close> of
  the same shape with entries in \<open>[0, 1]\<close>, \<open>compute_loss\<close> returns
  \<open>-(1/batch_size)\<cdot>\<Sum>\<^sub>i \<Sum>\<^sub>c Y_true[i,c]\<cdot>log(Y_pred[i,c] + 1e-9)\<close>, which is at least
  \<open>-log(1 + 1e-9)\<close>; it is non-negative when every predicted probability of a true class is
  at most \<open>1 - 1e-9\<close>, and strictly positive when each is below \<open>1 - 1e-9\<close>.
\<close>

theorem compute_loss_bounds:
  assumes oh: "one_hot Y" and Y: "mat m n Y" and P: "mat m n P" and m: "0 < m"
    and range: "\<forall>i<m. \<forall>c<n. 0 \<le> P ! i ! c \<and> P ! i ! c \<le> 1"
  shows "\<exists>L. compute_loss Y P = Inr L \<and>
           L = - (\<Sum>i<m. \<Sum>c<n. Y ! i ! c * ln (P ! i ! c + 1 / 10 ^ 9)) / real m \<and>
           - ln (1 + 1 / 10 ^ 9) \<le> L \<and>
           ((\<forall>i<m. \<forall>c<n. Y ! i ! c = 1 \<longrightarrow> P ! i ! c \<le> 1 - 1 / 10 ^ 9) \<longrightarrow> 0 \<le> L) \<and>
           ((\<forall>i<m. \<forall>c<n. Y ! i ! c = 1 \<longrightarrow> P ! i ! c < 1 - 1 / 10 ^ 9) \<longrightarrow> 0 < L)"
proof -
  define T where "T i = (\<Sum>c<n. Y ! i ! c * ln (P ! i ! c + 1 / 10 ^ 9))" for i
  define L where "L = - (\<Sum>i<m. T i) / real m"
  have eps: "(0::real) < 1 / 10 ^ 9"
    by simp
  have Yt: "tab m n (\<lambda>i c. Y ! i ! c) = Y" and Pt: "tab m n (\<lambda>i c. P ! i ! c) = P"
    using mat_eq_tab [OF Y] mat_eq_tab [OF P] by simp_all
  have "compute_loss (tab m n (\<lambda>i c. Y ! i ! c)) (tab m n (\<lambda>i c. P ! i ! c)) =
        Inr (- (\<Sum>i<m. \<Sum>c<n. Y ! i ! c * ln (P ! i ! c + 1 / 10 ^ 9)) / real m)"
  proof (rule compute_loss_on_tabs [OF m])
    fix i c
    assume "i < m" "c < n"
    with range have "0 \<le> P ! i ! c" by blast
    then show "0 < P ! i ! c + 1 / 10 ^ 9"
      using eps by (rule add_nonneg_pos)
  qed
  then have loss: "compute_loss Y P = Inr L"
    unfolding Yt Pt L_def T_def .
  have A: "T i \<le> ln (1 + 1 / 10 ^ 9)" if "i < m" for i
  proof -
    from one_hot_row [OF oh Y that] obtain t where t: "t < n"
      and s: "\<And>g. (\<Sum>c<n. Y ! i ! c * g c) = (g t :: real)" by metis
    have "0 \<le> P ! i ! t" "P ! i ! t \<le> 1"
      using range that t by blast+
    then have "ln (P ! i ! t + 1 / 10 ^ 9) \<le> ln (1 + 1 / 10 ^ 9)"
      by (intro ln_mono) simp_all
    then show ?thesis
      unfolding T_def s .
  qed
  have B: "T i \<le> 0" if "i < m" and "\<forall>i<m. \<forall>c<n. Y ! i ! c = 1 \<longrightarrow> P ! i ! c \<le> 1 - 1 / 10 ^ 9" for i
  proof -
    from one_hot_row [OF oh Y that(1)] obtain t where t: "t < n" "Y ! i ! t = 1"
      and s: "\<And>g. (\<Sum>c<n. Y ! i ! c * g c) = (g t :: real)" by metis
    have "0 \<le> P ! i ! t" "P ! i ! t \<le> 1 - 1 / 10 ^ 9"
      using range that t by blast+
    then have "ln (P ! i ! t + 1 / 10 ^ 9) \<le> 0"
      by (subst ln_le_zero_iff) simp_all
    then show ?thesis
      unfolding T_def s .
  qed
  have C: "T i < 0" if "i < m" and "\<forall>i<m. \<forall>c<n. Y ! i ! c = 1 \<longrightarrow> P ! i ! c < 1 - 1 / 10 ^ 9" for i
  proof -
    from one_hot_row [OF oh Y that(1)] obtain t where t: "t < n" "Y ! i ! t = 1"
      and s: "\<And>g. (\<Sum>c<n. Y ! i ! c * g c) = (g t :: real)" by metis
    have "0 \<le> P ! i ! t" "P ! i ! t < 1 - 1 / 10 ^ 9"
      using range that t by blast+
    then have "ln (P ! i ! t + 1 / 10 ^ 9) < 0"
      by (intro ln_less_zero) simp_all
    then show ?thesis
      unfolding T_def s .
  qed
  have "(\<Sum>i<m. T i) \<le> real (card {..<m}) * ln (1 + 1 / 10 ^ 9)"
    by (rule sum_bounded_above) (rule A, simp)
  then have 1: "- ln (1 + 1 / 10 ^ 9) \<le> L"
    using m unfolding L_def by (simp add: field_simps)
  have 2: "0 \<le> L" if "\<forall>i<m. \<forall>c<n. Y ! i ! c = 1 \<longrightarrow> P ! i ! c \<le> 1 - 1 / 10 ^ 9"
  proof -
    have "(\<Sum>i<m. T i) \<le> 0"
      by (rule sum_nonpos) (rule B [OF _ that], simp)
    then show ?thesis
      using m unfolding L_def by (simp add: field_simps)
  qed
  have 3: "0 < L" if "\<forall>i<m. \<forall>c<n. Y ! i ! c = 1 \<longrightarrow> P ! i ! c < 1 - 1 / 10 ^ 9"
  proof -
    have "0 < (\<Sum>i<m. - T i)"
    proof (rule sum_pos)
      show "finite {..<m}" by simp
      show "{..<m} \<noteq> {}" using m by auto
      show "0 < - T i" if "i \<in> {..<m}" for i
        using C [of i] that \<open>\<forall>i<m. \<forall>c<n. Y ! i ! c = 1 \<longrightarrow> P ! i ! c < 1 - 1 / 10 ^ 9\<close>
        by auto
    qed
    then have "(\<Sum>i<m. T i) < 0"
      by (simp add: sum_negf)
    then show ?thesis
      using m unfolding L_def by (simp add: field_simps)
  qed
  from loss 1 2 3 show ?thesis
    unfolding L_def T_def by blast
qed

theorem compute_loss_bounds_witness:
  "\<exists>L. compute_loss [[1, 0]] [[1 / 2, 1 / 2]] = Inr L \<and> - ln (1 + 1 / 10 ^ 9) \<le> L \<and> 0 < L"
proof -
  have oh: "one_hot [[1, 0]]"
    by (simp add: one_hot_def numeral_2_eq_2 upt_conv_Cons del: upt_Suc)
  have Y: "mat 1 2 [[1, 0]]" and P: "mat 1 2 [[1 / 2, 1 / 2]]"
    by (simp_all add: mat_def)
  have range: "\<forall>i<1. \<forall>c<2. 0 \<le> ([[1 / 2, 1 / 2]] :: ndarray) ! i ! c \<and>
                 ([[1 / 2, 1 / 2]] :: ndarray) ! i ! c \<le> 1"
    by (simp add: numeral_2_eq_2 less_Suc_eq)
  have below: "\<forall>i<1. \<forall>c<2. ([[1, 0]] :: ndarray) ! i ! c = 1 \<longrightarrow>
                 ([[1 / 2, 1 / 2]] :: ndarray) ! i ! c < 1 - 1 / 10 ^ 9"
    by (simp add: numeral_2_eq_2 less_Suc_eq)
  from compute_loss_bounds [OF oh Y P zero_less_one range] obtain L where
    L: "compute_loss [[1, 0]] [[1 / 2, 1 / 2]] = Inr L" "- ln (1 + 1 / 10 ^ 9) \<le> L"
    and pos: "(\<forall>i<1. \<forall>c<2. ([[1, 0]] :: ndarray) ! i ! c = 1 \<longrightarrow>
                 ([[1 / 2, 1 / 2]] :: ndarray) ! i ! c < 1 - 1 / 10 ^ 9) \<longrightarrow> 0 < L"
    by blast
  from pos below have "0 < L" ..
  with L show ?thesis by blast
qed

text \<open>
  Claim C3 as stated fails: on the one-hot row \<open>[1, 0]\<close> with the prediction \<open>[1, 0]\<close>,
  a valid distribution, the loss is \<open>-log(1 + 1e-9)\<close>, which is negative.
\<close>

theorem compute_loss_negative:
  "one_hot [[1, 0]] \<and>
   compute_loss [[1, 0]] [[1, 0]] = Inr (- ln (1 + 1 / 10 ^ 9)) \<and>
   - ln (1 + 1 / 10 ^ 9) < (0::real)"
proof -
  have 1: "one_hot [[1, 0]]"
    by (simp add: one_hot_def numeral_2_eq_2 upt_conv_Cons del: upt_Suc)
  have 2: "compute_loss [[1, 0]] [[1, 0]] = Inr (- ln (1 + 1 / 10 ^ 9))"
    by (simp add: compute_loss_def np_add_scalar_def np_log_def np_multiply_def
          np_elementwise_def bdim_def nrows_def ncols_def np_sum_def Let_def)
  have 3: "- ln (1 + 1 / 10 ^ 9) < (0::real)"
    by (simp add: ln_gt_zero)
  from 1 2 3 show ?thesis by blast
qed

text \<open>
  Claim C4. After \<open>forward(X)\<close>, the factor \<open>backward\<close> uses for the hidden unit \<open>(i, j)\<close> is 1
  when the cached pre-activation is strictly positive and 0 otherwise, the local
  \<open>dz_hidden\<close> is the product of \<open>da_hidden\<close> with that factor, and where the
  pre-activation is exactly 0 the entry of \<open>dz_hidden\<close> is 0; the same holds for the product
  of any other upstream gradient \<open>D\<close> of that shape with the factor.
\<close>

theorem relu_subgradient:
  assumes wf: "net_wf self" and X: "mat m (input_size self) X"
    and Y: "mat m (output_size self) Y" and m: "0 < m"
  shows "\<exists>l zh. backward_body (snd (forward self X)) X Y = Inr l \<and>
           z_hidden (snd (forward self X)) = Some zh \<and>
           (\<forall>i<m. \<forall>j<hidden_size self.
              relu_derivative zh ! i ! j = (if 0 < zh ! i ! j then 1 else 0) \<and>
              dz_hidden l ! i ! j = da_hidden l ! i ! j * relu_derivative zh ! i ! j \<and>
              (zh ! i ! j = 0 \<longrightarrow> dz_hidden l ! i ! j = 0)) \<and>
           (\<forall>D. mat m (hidden_size self) D \<longrightarrow>
              (\<exists>G. np_multiply D (relu_derivative zh) = Inr G \<and>
                   (\<forall>i<m. \<forall>j<hidden_size self. zh ! i ! j = 0 \<longrightarrow> G ! i ! j = 0)))"
proof -
  let ?zh = "tab m (hidden_size self) (spec_z_hidden self X)"
  have z: "z_hidden (snd (forward self X)) = Some ?zh"
    by (simp add: forward_wf [OF wf X])
  have g: "\<exists>G. np_multiply D (relu_derivative ?zh) = Inr G \<and>
             (\<forall>i<m. \<forall>j<hidden_size self. ?zh ! i ! j = 0 \<longrightarrow> G ! i ! j = 0)"
    if "mat m (hidden_size self) D" for D
    unfolding relu_gate [OF that] by simp
  show ?thesis
    unfolding backward_body_wf [OF assms] z
    using g by (simp add: spec_dz_hidden_def spec_relu_derivative_def)
qed

theorem relu_subgradient_witness:
  "\<exists>l. backward_body (snd (forward example_net [[0]])) [[0]] [[1, 0]] = Inr l \<and>
       z_hidden (snd (forward example_net [[0]])) = Some [[0, 0]] \<and>
       da_hidden l = [[- 1 / 2, 1 / 2]] \<and>
       dz_hidden l ! 0 ! 0 = 0 \<and> dz_hidden l ! 0 ! 1 = 0"
proof -
  have X: "mat 1 (input_size example_net) [[0]]"
    by (simp add: mat_def ex_sizes)
  have Y: "mat 1 (output_size example_net) [[1, 0]]"
    by (simp add: mat_def ex_sizes)
  have z: "z_hidden (snd (forward example_net [[0]])) = Some [[0, 0]]"
    by (simp add: forward_wf [OF ex_wf X] ex_eval)
  from relu_subgradient [OF ex_wf X Y] z obtain l where
    l: "backward_body (snd (forward example_net [[0]])) [[0]] [[1, 0]] = Inr l"
    and zero: "\<forall>i<1. \<forall>j<hidden_size example_net.
                 [[0, 0 :: real]] ! i ! j = 0 \<longrightarrow> dz_hidden l ! i ! j = 0"
    by auto
  have da: "da_hidden l = [[- 1 / 2, 1 / 2]]"
    using l unfolding backward_body_wf [OF ex_wf X Y zero_less_one]
    by (auto simp: ex_eval spec_da_hidden_def spec_dz_output_def)
  from zero have "dz_hidden l ! 0 ! 0 = 0" "dz_hidden l ! 0 ! 1 = 0"
    by (simp_all add: ex_sizes)
  with l z da show ?thesis by blast
qed

text \<open>
  Claim C5. For a well-formed network, a batch \<open>X\<close> with at least one row and labels \<open>Y\<close> of
  as many rows, \<open>train(X, Y, epochs)\<close> runs exactly \<open>epochs\<close> iterations and raises nowhere:
  there are networks \<open>nets ! 0, \<dots>, nets ! epochs\<close> and losses
  \<open>losses ! 0, \<dots>, losses ! (epochs - 1)\<close> such that epoch \<open>k\<close> takes \<open>nets ! k\<close> to
  \<open>nets ! (k + 1)\<close> by \<open>forward\<close>, \<open>compute_loss\<close>, \<open>backward\<close>, \<open>update_parameters\<close> in this
  order with the loss \<open>losses ! k\<close>; the loss history is \<open>losses\<close>, one entry per epoch, and
  the lines printed are the pairs \<open>(k, losses ! k)\<close> for exactly the \<open>k\<close> with
  \<open>k mod 100 = 0\<close>, in increasing order.
\<close>

theorem train_trace:
  assumes "net_wf self" and "mat m (input_size self) X"
    and "mat m (output_size self) Y" and "0 < m"
  shows "\<exists>nets losses.
           length nets = Suc (nat epochs) \<and> length losses = nat epochs \<and> nets ! 0 = self \<and>
           (\<forall>k<nat epochs. epoch_spec (nets ! k) X Y = Inr (losses ! k, nets ! Suc k)) \<and>
           train self X Y epochs =
             (Inr (),
              \<lparr> trained = nets ! nat epochs, history = losses,
                printed = map (\<lambda>k. (k, losses ! k))
                            (filter (\<lambda>k. k mod 100 = 0) [0..<nat epochs]),
                plotted = Some (map (\<lambda>k. 100 * k) [0..<(nat epochs + 99) div 100],
                                every_100th losses) \<rparr>)"
proof -
  from train_loop_trace [OF assms, of "nat epochs" 0 "[]" "[]"] obtain nets losses where
    1: "length nets = Suc (nat epochs)" "length losses = nat epochs" "nets ! 0 = self"
      "\<forall>k<nat epochs. epoch_spec (nets ! k) X Y = Inr (losses ! k, nets ! Suc k)"
    and run: "train_loop X Y [0..<nat epochs] (self, [], []) =
              (Inr (), (nets ! nat epochs, losses,
                        map (\<lambda>k. (k, losses ! k)) (filter (\<lambda>k. k mod 100 = 0) [0..<nat epochs])))"
    by auto
  have "train self X Y epochs =
        (Inr (),
         \<lparr> trained = nets ! nat epochs, history = losses,
           printed = map (\<lambda>k. (k, losses ! k)) (filter (\<lambda>k. k mod 100 = 0) [0..<nat epochs]),
           plotted = Some (map (\<lambda>k. 100 * k) [0..<(nat epochs + 99) div 100],
                           every_100th losses) \<rparr>)"
    by (simp add: train_def run)
  with 1 show ?thesis by blast
qed

theorem train_trace_witness:
  "\<exists>losses. length losses = 101 \<and>
     fst (train example_net [[1]] [[1, 0]] 101) = Inr () \<and>
     history (snd (train example_net [[1]] [[1, 0]] 101)) = losses \<and>
     printed (snd (train example_net [[1]] [[1, 0]] 101)) = [(0, losses ! 0), (100, losses ! 100)]"
proof -
  have X: "mat 1 (input_size example_net) [[1]]"
    by (simp add: mat_def ex_sizes)
  have Y: "mat 1 (output_size example_net) [[1, 0]]"
    by (simp add: mat_def ex_sizes)
  have f: "filter (\<lambda>k. k mod 100 = 0) [0..<nat 101] = [0, 100]"
    by code_simp
  from train_trace [OF ex_wf X Y zero_less_one, of 101] obtain nets losses where
    "length losses = nat 101"
    "train example_net [[1]] [[1, 0]] 101 =
       (Inr (),
        \<lparr> trained = nets ! nat 101, history = losses,
          printed = map (\<lambda>k. (k, losses ! k)) (filter (\<lambda>k. k mod 100 = 0) [0..<nat 101]),
          plotted = Some (map (\<lambda>k. 100 * k) [0..<(nat 101 + 99) div 100],
                          every_100th losses) \<rparr>)"
    by blast
  then show ?thesis
    unfolding f by simp
qed

text \<open>
  Claim C7. \<open>backward\<close> assigns to no attribute: whatever the arguments, and whether it
  returns the four gradients or raises, the instance afterwards (both weight matrices, both
  bias vectors, the learning rate, and the cached intermediates too) is the instance before.
\<close>

theorem backward_frame: "snd (backward self x y_true) = self"
  by (simp add: backward_def split: sum.split)

text \<open>
  Claim C8. For a well-formed network and a batch of shape \<open>[batch_size \<times> input_size]\<close>,
  \<open>predict(X)\<close> returns one index per row of \<open>forward(X)\<close>: an index of a largest entry of
  the row, and the lowest such index, since every entry before it is strictly smaller.
\<close>

theorem predict_argmax:
  assumes wf: "net_wf self" and X: "mat m (input_size self) X"
  shows "\<exists>P idx. fst (forward self X) = Inr P \<and> fst (predict self X) = Inr idx \<and>
           length idx = m \<and>
           (\<forall>i<m. idx ! i < output_size self \<and>
                  (\<forall>c<output_size self. P ! i ! c \<le> P ! i ! (idx ! i)) \<and>
                  (\<forall>c<idx ! i. P ! i ! c < P ! i ! (idx ! i)))"
proof -
  let ?P = "forward_spec self X"
  let ?idx = "map argmax ?P"
  have no: "0 < output_size self"
    using wf by (simp add: net_wf_def)
  have mX: "nrows X = m"
    using X by (simp add: mat_def nrows_def)
  have len: "length ?P = m"
    by (simp add: forward_spec_def mX)
  have row: "length (?P ! i) = output_size self" if "i < m" for i
    using that by (simp add: forward_spec_def mX)
  have ne: "\<not> list_ex (\<lambda>r. r = []) ?P"
    using no by (auto simp: list_ex_iff forward_spec_def tab_def)
  have 1: "fst (forward self X) = Inr ?P"
    by (simp add: forward_wf [OF wf X])
  have 2: "fst (predict self X) = Inr ?idx"
    using ne by (simp add: predict_def forward_wf [OF wf X] np_argmax_axis1_def)
  have 3: "?idx ! i < output_size self \<and>
           (\<forall>c<output_size self. ?P ! i ! c \<le> ?P ! i ! (?idx ! i)) \<and>
           (\<forall>c<?idx ! i. ?P ! i ! c < ?P ! i ! (?idx ! i))" if "i < m" for i
  proof -
    have "?P ! i \<noteq> []"
      using row [OF that] no by auto
    from argmax_spec [OF this] show ?thesis
      using that by (simp add: row len)
  qed
  from 1 2 3 len show ?thesis
    by (intro exI [of _ ?P] exI [of _ ?idx]) simp
qed

theorem predict_argmax_witness:
  "fst (forward example_net [[1], [3]]) = Inr [[1 / 2, 1 / 2], [1 / 2, 1 / 2]] \<and>
   fst (predict example_net [[1], [3]]) = Inr [0, 0]"
proof -
  have X: "mat 2 (input_size example_net) [[1], [3]]"
    by (simp add: mat_def ex_sizes)
  have P: "fst (forward example_net [[1], [3]]) = Inr [[1 / 2, 1 / 2], [1 / 2, 1 / 2]]"
    by (simp add: forward_wf [OF ex_wf X] forward_spec_def ex_eval)
  from predict_argmax [OF ex_wf X] P obtain idx where
    idx: "fst (predict example_net [[1], [3]]) = Inr idx" "length idx = 2"
    and first: "\<forall>i<2. \<forall>c<idx ! i. ([[1 / 2, 1 / 2], [1 / 2, 1 / 2]] :: ndarray) ! i ! c
                  < [[1 / 2, 1 / 2], [1 / 2, 1 / 2]] ! i ! (idx ! i)"
      and bound: "\<forall>i<2. idx ! i < output_size example_net"
    by auto
  have "idx ! 0 = 0"
  proof -
    have "idx ! 0 \<noteq> 1"
    proof
      assume "idx ! 0 = 1"
      with first [rule_format, of 0 0] show False by simp
    qed
    moreover from bound have "idx ! 0 < 2"
      by (simp add: ex_sizes)
    ultimately show ?thesis by arith
  qed
  moreover have "idx ! 1 = 0"
  proof -
    have "idx ! 1 \<noteq> 1"
    proof
      assume "idx ! 1 = 1"
      with first [rule_format, of 1 0] show False by simp
    qed
    moreover from bound have "idx ! 1 < 2"
      by (simp add: ex_sizes)
    ultimately show ?thesis by arith
  qed
  ultimately have "idx = [0, 0]"
    using idx(2) by (intro nth_equalityI) (auto simp: less_Suc_eq numeral_2_eq_2)
  with idx(1) P show ?thesis by simp
qed

text \<open>
  Claim C9. A second call of \<open>predict\<close> on the same input, with nothing in between, returns
  what the first call returned, be it the class indices or the error raised, and leaves the
  instance as the first call left it.
\<close>

theorem predict_twice: "predict (snd (predict self x)) x = predict self x"
  by (rule predict_idem)



end
